theory Spec2Isabelle
  imports Complex_Main "HOL-Library.Char_ord" "HOL-Library.List_Lexorder" "HOL-Library.Sublist"
begin

section \<open>The territory table\<close>

text \<open>
  \<^verbatim>\<open>app.py\<close> works on a pandas data frame whose rows are territory records.  A row is
  modelled as a record with one field per spreadsheet column.  A cell that pandas
  reports as missing (\<^verbatim>\<open>NaN\<close>, \<^verbatim>\<open>NaT\<close>, \<^verbatim>\<open>None\<close>) is \<open>None\<close>.

  \<^item> Every column that the functions index is present in the frame; the functions
    raise \<^verbatim>\<open>KeyError\<close> otherwise, before they compute anything.
  \<^item> Text columns hold ASCII strings.
  \<^item> Latitude and longitude are floats; the model computes with real numbers, and
    \<open>None\<close> is \<^verbatim>\<open>NaN\<close>.
  \<^item> The two date columns are pandas timestamps after \<^verbatim>\<open>load_data\<close> has coerced
    them; a timestamp is the number of nanoseconds since the epoch.
  \<^item> \<^verbatim>\<open>Deals\<close> is the one column for which the code tells a missing column from a
    missing cell (\<^verbatim>\<open>row.get("Deals", 0)\<close>), so it has a type of its own.
  \<^item> \<^verbatim>\<open>Flag\<close> is the column added by \<^verbatim>\<open>assign_flags\<close>; it is \<open>None\<close> before.
\<close>

datatype deals = NoColumn | NaN | Count int

record row =
  City :: "string option"
  State :: "string option"
  Latitude :: "real option"
  Longitude :: "real option"
  Population :: "int option"
  Rep_Assigned :: "string option"
  Date_Assigned_to_Rep :: "int option"
  Sale_Entry_Date :: "int option"
  Deals :: deals
  Flag :: "string option"

section \<open>assign_flags\<close>

text \<open>
  \<^verbatim>\<open>row.get("Deals", 0)\<close>: the default \<open>0\<close> is used only when the frame has no
  \<^verbatim>\<open>Deals\<close> column; a missing cell stays \<^verbatim>\<open>NaN\<close>.
\<close>

definition get_Deals :: "row \<Rightarrow> int option" where
  "get_Deals r = (case Deals r of NoColumn \<Rightarrow> Some 0 | NaN \<Rightarrow> None | Count n \<Rightarrow> Some n)"

text \<open>
  \<^verbatim>\<open>(today - assigned_date).days\<close>: the \<^verbatim>\<open>days\<close> attribute of a time difference is
  the difference divided by one day, rounded towards minus infinity.
\<close>

definition ns_per_day :: int where
  "ns_per_day = 86400000000000"

definition days_since :: "int \<Rightarrow> int \<Rightarrow> int" where
  "days_since today assigned_date = (today - assigned_date) div ns_per_day"

text \<open>
  The body of the loop of \<^verbatim>\<open>assign_flags\<close>: the flag appended for one row.
  \<^verbatim>\<open>deals == 0\<close> is false for a \<^verbatim>\<open>NaN\<close> cell.
\<close>

definition flag_of :: "int \<Rightarrow> row \<Rightarrow> string" where
  "flag_of today r =
     (case Date_Assigned_to_Rep r of
        Some assigned_date \<Rightarrow>
          (let days_since_assigned = days_since today assigned_date in
           if days_since_assigned \<le> 210 then ''Blue''
           else if 210 < days_since_assigned \<and> days_since_assigned \<le> 270 then ''Orange''
           else if days_since_assigned > 270 \<and> get_Deals r = Some 0 then ''Red''
           else ''Black'')
      | None \<Rightarrow>
          (case Rep_Assigned r of
             Some rep \<Rightarrow> ''Black''
           | None \<Rightarrow> ''Purple''))"

text \<open>
  \<^verbatim>\<open>assign_flags\<close> reads the clock once (\<^verbatim>\<open>datetime.today()\<close>); the model takes that
  instant as the argument \<open>today\<close>.  \<^verbatim>\<open>data["Flag"] = flags\<close> writes the column, the
  other columns stay as they are.
\<close>

definition assign_flags :: "int \<Rightarrow> row list \<Rightarrow> row list" where
  "assign_flags today data = map (\<lambda>r. r\<lparr>Flag := Some (flag_of today r)\<rparr>) data"

text \<open>
  The classifier as the specification words it.  The record's \<open>dealCount\<close> is a
  non-negative integer with default 0; the age is \<open>now - assignedDate\<close> in whole
  days.  Five categories, decided from the age, the deal count and the
  representative.
\<close>

datatype category =
  Assigned_Recent | Assigned_Aging | Assigned_Stale_NoDeals | Assigned_Other | Available

definition dealCount_spec :: "row \<Rightarrow> int" where
  "dealCount_spec r = (case Deals r of Count n \<Rightarrow> n | NaN \<Rightarrow> 0 | NoColumn \<Rightarrow> 0)"

definition age_spec :: "int \<Rightarrow> int \<Rightarrow> int" where
  "age_spec now assignedDate = (now - assignedDate) div (24 * 60 * 60 * 1000000000)"

definition classify_spec :: "int \<Rightarrow> row \<Rightarrow> category" where
  "classify_spec now r =
     (case Date_Assigned_to_Rep r of
        Some assignedDate \<Rightarrow>
          (let age = age_spec now assignedDate in
           if age \<le> 210 then Assigned_Recent
           else if 210 < age \<and> age \<le> 270 then Assigned_Aging
           else if age > 270 \<and> dealCount_spec r = 0 then Assigned_Stale_NoDeals
           else Assigned_Other)
      | None \<Rightarrow> if Rep_Assigned r \<noteq> None then Assigned_Other else Available)"

fun colour :: "category \<Rightarrow> string" where
  "colour Assigned_Recent = ''Blue''"
| "colour Assigned_Aging = ''Orange''"
| "colour Assigned_Stale_NoDeals = ''Red''"
| "colour Assigned_Other = ''Black''"
| "colour Available = ''Purple''"

section \<open>haversine\<close>

text \<open>
  \<^verbatim>\<open>math.radians\<close>, and \<^verbatim>\<open>math.atan2(y, x)\<close> on real numbers (no signed zeros).
\<close>

definition radians :: "real \<Rightarrow> real" where
  "radians x = x * pi / 180"

definition atan2 :: "real \<Rightarrow> real \<Rightarrow> real" where
  "atan2 y x =
     (if 0 < x then arctan (y / x)
      else if x < 0 then (if 0 \<le> y then arctan (y / x) + pi else arctan (y / x) - pi)
      else if 0 < y then pi / 2
      else if y < 0 then - (pi / 2)
      else 0)"

text \<open>
  \<^verbatim>\<open>haversine(lat1, lon1, lat2, lon2)\<close>, line by line.  An argument is \<open>None\<close> when
  the float is \<^verbatim>\<open>NaN\<close>; a \<^verbatim>\<open>NaN\<close> in an argument that is read makes the result
  \<^verbatim>\<open>NaN\<close>.  The source computes \<^verbatim>\<open>dlon = radians(lat2 - lon1)\<close> and never reads
  \<^verbatim>\<open>lon2\<close>.  \<^verbatim>\<open>math.sqrt\<close> raises on a negative argument; lemma
  \<open>haversine_radicands\<close> below shows that both radicands are non-negative in exact
  arithmetic, so that branch is not part of the model.
\<close>

definition haversine ::
  "real option \<Rightarrow> real option \<Rightarrow> real option \<Rightarrow> real option \<Rightarrow> real option" where
  "haversine lat1 lon1 lat2 lon2 =
     (case (lat1, lon1, lat2) of
        (Some la1, Some lo1, Some la2) \<Rightarrow>
          (let R = 3958.8;
               dlat = radians (la2 - la1);
               dlon = radians (la2 - lo1);
               a = (sin (dlat / 2))\<^sup>2 +
                   cos (radians la1) * cos (radians la2) * (sin (dlon / 2))\<^sup>2;
               c = 2 * atan2 (sqrt a) (sqrt (1 - a))
           in Some (R * c))
      | _ \<Rightarrow> None)"

text \<open>
  The haversine formula as the specification states it, with the longitude delta
  taken from the two longitudes.
\<close>

definition haversine_spec :: "real \<Rightarrow> real \<Rightarrow> real \<Rightarrow> real \<Rightarrow> real" where
  "haversine_spec lat1 lon1 lat2 lon2 =
     (let R = 3958.8;
          dlat = radians (lat2 - lat1);
          dlon = radians (lon2 - lon1);
          a = (sin (dlat / 2))\<^sup>2 +
              cos (radians lat1) * cos (radians lat2) * (sin (dlon / 2))\<^sup>2
      in 2 * R * atan2 (sqrt a) (sqrt (1 - a)))"

section \<open>find_available_cities\<close>

text \<open>\<^verbatim>\<open>distance <= 7\<close> on floats: a comparison with \<^verbatim>\<open>NaN\<close> is false.\<close>

definition float_le :: "real option \<Rightarrow> real \<Rightarrow> bool" where
  "float_le x y = (case x of None \<Rightarrow> False | Some v \<Rightarrow> v \<le> y)"

text \<open>
  The inner loop over the assigned rows: the value of \<^verbatim>\<open>too_close\<close> when the loop
  ends or breaks.
\<close>

fun too_close :: "row \<Rightarrow> row list \<Rightarrow> bool" where
  "too_close unassigned_row [] = False"
| "too_close unassigned_row (assigned_row # rest) =
     (let distance = haversine (Latitude unassigned_row) (Longitude unassigned_row)
                               (Latitude assigned_row) (Longitude assigned_row)
      in if float_le distance 7 then True else too_close unassigned_row rest)"

text \<open>The outer loop over the unassigned rows, collecting \<^verbatim>\<open>available_cities\<close>.\<close>

fun available_loop :: "row list \<Rightarrow> row list \<Rightarrow> row list" where
  "available_loop [] assigned = []"
| "available_loop (unassigned_row # rest) assigned =
     (if \<not> too_close unassigned_row assigned
      then unassigned_row # available_loop rest assigned
      else available_loop rest assigned)"

definition find_available_cities :: "row list \<Rightarrow> row list" where
  "find_available_cities data =
     (let assigned = filter (\<lambda>r. Rep_Assigned r \<noteq> None) data;
          unassigned = filter (\<lambda>r. Rep_Assigned r = None) data
      in available_loop unassigned assigned)"

section \<open>filter_data\<close>

text \<open>
  \<^verbatim>\<open>Series.str.contains(pat, case=False, na=False)\<close> reads \<open>pat\<close> as a regular
  expression (\<^verbatim>\<open>regex=True\<close> is the default) and compiles it, with
  \<^verbatim>\<open>re.IGNORECASE\<close>, before it looks at any row.  Python's \<^verbatim>\<open>re\<close> is a library, not
  code of the repository.  The model spells out two parts of it:
  \<^item> a pattern that begins with a repetition operator does not compile
    (\<^verbatim>\<open>re.error\<close>, with the message nothing to repeat);
  \<^item> a pattern without any special character matches as plain text, here without
    regard to the case of ASCII letters.

  For every other pattern the library is a parameter \<open>re\<close> of the model: \<open>re pat\<close> is
  \<open>None\<close> when \<^verbatim>\<open>re.compile\<close> raises \<^verbatim>\<open>re.error\<close>, and otherwise the test
  \<^verbatim>\<open>regex.search(s) is not None\<close> of the compiled pattern.  The properties below hold
  for every such \<open>re\<close>.
\<close>

datatype error = ReError

datatype 'a result = Ok 'a | Raise error

type_synonym python_re = "string \<Rightarrow> (string \<Rightarrow> bool) option"

definition lower :: "char \<Rightarrow> char" where
  "lower c =
     (case map_of (zip ''ABCDEFGHIJKLMNOPQRSTUVWXYZ'' ''abcdefghijklmnopqrstuvwxyz'') c of
        Some l \<Rightarrow> l
      | None \<Rightarrow> c)"

definition regex_special :: "char list" where
  "regex_special = ''.^$*+?{}[]|()'' @ [CHR 0x5C]"

definition literal_text :: "string \<Rightarrow> bool" where
  "literal_text pat = list_all (\<lambda>c. c \<notin> set regex_special) pat"

definition search_literal :: "string \<Rightarrow> string \<Rightarrow> bool" where
  "search_literal pat s = sublist (map lower pat) (map lower s)"

definition leading_repeat :: "string \<Rightarrow> bool" where
  "leading_repeat pat = (case pat of [] \<Rightarrow> False | c # rest \<Rightarrow> c \<in> set ''*+?'')"

definition re_compile :: "python_re \<Rightarrow> string \<Rightarrow> (string \<Rightarrow> bool) result" where
  "re_compile re pat =
     (if leading_repeat pat then Raise ReError
      else if literal_text pat then Ok (search_literal pat)
      else (case re pat of None \<Rightarrow> Raise ReError | Some found \<Rightarrow> Ok found))"

definition compiles :: "python_re \<Rightarrow> string \<Rightarrow> bool" where
  "compiles re pat = (case re_compile re pat of Ok found \<Rightarrow> True | Raise e \<Rightarrow> False)"

text \<open>\<^verbatim>\<open>na=False\<close>: a missing cell does not match.\<close>

definition str_contains :: "(string \<Rightarrow> bool) \<Rightarrow> string option \<Rightarrow> bool" where
  "str_contains found cell = (case cell of None \<Rightarrow> False | Some s \<Rightarrow> found s)"

text \<open>
  \<^verbatim>\<open>Series.astype(str)\<close> on an object column (pandas 1 and 2): a missing cell becomes
  the three-letter string \<^verbatim>\<open>nan\<close>.
\<close>

definition astype_str :: "string option \<Rightarrow> string option" where
  "astype_str cell = (case cell of None \<Rightarrow> Some ''nan'' | Some s \<Rightarrow> Some s)"

text \<open>\<^verbatim>\<open>Series.isin\<close> and \<^verbatim>\<open>>=\<close>: false on a missing cell.\<close>

definition isin :: "string option \<Rightarrow> string list \<Rightarrow> bool" where
  "isin cell values = (case cell of None \<Rightarrow> False | Some s \<Rightarrow> s \<in> set values)"

definition ge_cell :: "int option \<Rightarrow> int \<Rightarrow> bool" where
  "ge_cell cell n = (case cell of None \<Rightarrow> False | Some p \<Rightarrow> n \<le> p)"

text \<open>
  \<^verbatim>\<open>if selected: filtered_data = filtered_data[filtered_data[column] == selected]\<close>:
  \<^verbatim>\<open>None\<close> and the empty string are falsy, and \<^verbatim>\<open>==\<close> is false on a missing cell.
\<close>

definition select_eq ::
  "(row \<Rightarrow> string option) \<Rightarrow> string option \<Rightarrow> row list \<Rightarrow> row list" where
  "select_eq column selected filtered_data =
     (case selected of
        None \<Rightarrow> filtered_data
      | Some s \<Rightarrow>
          if s = [] then filtered_data
          else filter (\<lambda>r. column r = Some s) filtered_data)"

text \<open>The three \<^verbatim>\<open>str.contains\<close> masks of the search, joined by \<^verbatim>\<open>|\<close>.\<close>

definition search_rows :: "python_re \<Rightarrow> string \<Rightarrow> row list \<Rightarrow> row list result" where
  "search_rows re search_query filtered_data =
     (case re_compile re search_query of
        Ok found \<Rightarrow>
          Ok (filter (\<lambda>r. str_contains found (City r) \<or> str_contains found (State r) \<or>
                          str_contains found (astype_str (Rep_Assigned r))) filtered_data)
      | Raise e \<Rightarrow> Raise e)"

definition filter_data ::
  "python_re \<Rightarrow> row list \<Rightarrow> string list \<Rightarrow> string \<Rightarrow> string option \<Rightarrow> string option \<Rightarrow> int
     \<Rightarrow> row list result" where
  "filter_data re data states search_query selected_rep selected_flag min_population =
     (let filtered_data =
            filter (\<lambda>r. isin (State r) states \<and> ge_cell (Population r) min_population) data
      in case (if search_query \<noteq> [] then search_rows re search_query filtered_data
               else Ok filtered_data) of
           Ok filtered_data \<Rightarrow>
             Ok (select_eq Flag selected_flag (select_eq Rep_Assigned selected_rep filtered_data))
         | Raise e \<Rightarrow> Raise e)"

section \<open>summarize_by_rep\<close>

text \<open>
  \<^verbatim>\<open>data.groupby('Rep Assigned')['Flag'].value_counts()\<close> counts the pairs of a
  representative and a flag; rows whose representative or flag is missing are left
  out.  \<open>counted\<close> lists the pairs, one per counted row.  \<^verbatim>\<open>unstack(fill_value=0)\<close>
  makes one row per representative and one column per flag that occurs, both in
  sorted order; \<^verbatim>\<open>reindex\<close> keeps the four named columns and fills the missing ones;
  the last step appends the row sum as \<^verbatim>\<open>Total\<close>.  The summary table is the list of
  its rows, each a representative with its columns.
\<close>

fun counted :: "row list \<Rightarrow> (string \<times> string) list" where
  "counted [] = []"
| "counted (r # data) =
     (case (Rep_Assigned r, Flag r) of
        (Some rep, Some flag) \<Rightarrow> (rep, flag) # counted data
      | _ \<Rightarrow> counted data)"

definition unstack :: "(string \<times> string) list \<Rightarrow> (string \<times> (string \<times> nat) list) list" where
  "unstack pairs =
     map (\<lambda>rep. (rep, map (\<lambda>flag. (flag, count_list pairs (rep, flag)))
                          (sort (remdups (map snd pairs)))))
         (sort (remdups (map fst pairs)))"

definition reindex :: "string list \<Rightarrow> nat \<Rightarrow> (string \<times> nat) list \<Rightarrow> (string \<times> nat) list" where
  "reindex columns fill_value cols =
     map (\<lambda>c. (c, case map_of cols c of None \<Rightarrow> fill_value | Some n \<Rightarrow> n)) columns"

definition with_total :: "(string \<times> nat) list \<Rightarrow> (string \<times> nat) list" where
  "with_total cols = cols @ [(''Total'', sum_list (map snd cols))]"

definition summarize_by_rep :: "row list \<Rightarrow> (string \<times> (string \<times> nat) list) list" where
  "summarize_by_rep data =
     (let summary = unstack (counted data);
          summary = map (\<lambda>(rep, cols).
                      (rep, reindex [''Blue'', ''Orange'', ''Red'', ''Black''] 0 cols)) summary
      in map (\<lambda>(rep, cols). (rep, with_total cols)) summary)"

text \<open>
  The number of records of a representative in a category, and the summary row as
  the specification words it.
\<close>

definition records_of :: "row list \<Rightarrow> string \<Rightarrow> string \<Rightarrow> nat" where
  "records_of data rep flag =
     length (filter (\<lambda>r. Rep_Assigned r = Some rep \<and> Flag r = Some flag) data)"

definition summary_row_spec :: "row list \<Rightarrow> string \<Rightarrow> (string \<times> nat) list" where
  "summary_row_spec data rep =
     [(''Blue'', records_of data rep ''Blue''),
      (''Orange'', records_of data rep ''Orange''),
      (''Red'', records_of data rep ''Red''),
      (''Black'', records_of data rep ''Black''),
      (''Total'', records_of data rep ''Blue'' + records_of data rep ''Orange'' +
                  records_of data rep ''Red'' + records_of data rep ''Black'')]"

section \<open>Example records\<close>

text \<open>
  A town in Massachusetts with 20000 inhabitants, at the given coordinates and with
  the given representative; two small tables built from it; and a record assigned at
  instant 0 whose \<^verbatim>\<open>Deals\<close> cell is blank.
\<close>

definition place :: "real option \<Rightarrow> real option \<Rightarrow> string option \<Rightarrow> row" where
  "place lat lon rep =
     \<lparr>City = Some ''Town'', State = Some ''MA'', Latitude = lat, Longitude = lon,
      Population = Some 20000, Rep_Assigned = rep, Date_Assigned_to_Rep = None,
      Sale_Entry_Date = None, Deals = NoColumn, Flag = None\<rparr>"

definition example_table :: "row list" where
  "example_table =
     [(place None None (Some ''Bob''))\<lparr>Date_Assigned_to_Rep := Some 0\<rparr>,
      place None None (Some ''Al''),
      place None None None,
      (place None None (Some ''Bob''))\<lparr>Date_Assigned_to_Rep := Some 0\<rparr>]"

definition stale_row :: row where
  "stale_row = (place None None (Some ''Y''))\<lparr>Date_Assigned_to_Rep := Some 0, Deals := NaN\<rparr>"

text \<open>
  Two stand-ins for the library on patterns with special characters: one for which
  every such pattern compiles and matches every string, one for which none compiles.
\<close>

definition accepting_re :: python_re where
  "accepting_re pat = Some (\<lambda>s. True)"

definition refusing_re :: python_re where
  "refusing_re pat = None"

definition example_today :: int where
  "example_today = 100 * ns_per_day"

definition flagged_table :: "row list" where
  "flagged_table =
     [(place None None (Some ''Bob''))\<lparr>Flag := Some ''Blue''\<rparr>,
      (place None None (Some ''Al''))\<lparr>Flag := Some ''Red''\<rparr>,
      (place None None None)\<lparr>Flag := Some ''Purple''\<rparr>,
      (place None None (Some ''Bob''))\<lparr>Flag := Some ''Blue''\<rparr>]"


section \<open>Properties of the classifier\<close>

lemma flag_of_Flag_update: "flag_of today (r\<lparr>Flag := f\<rparr>) = flag_of today r"
  by (simp add: flag_of_def get_Deals_def Let_def split: option.splits)

text \<open>
  Whenever the \<^verbatim>\<open>Deals\<close> cell is not blank, the flag is the colour of the category
  that the stated rules give.
\<close>

lemma flag_of_classify_spec:
  "Deals r \<noteq> NaN \<Longrightarrow> flag_of today r = colour (classify_spec today r)"
  by (cases "Deals r")
     (simp_all add: flag_of_def classify_spec_def get_Deals_def dealCount_spec_def
        days_since_def age_spec_def ns_per_day_def Let_def split: option.splits)

lemma flag_of_stale_row: "flag_of (300 * ns_per_day) stale_row = ''Black''"
  by (simp add: flag_of_def stale_row_def place_def days_since_def ns_per_day_def get_Deals_def)

lemma classify_spec_stale_row:
  "classify_spec (300 * ns_per_day) stale_row = Assigned_Stale_NoDeals"
  by (simp add: classify_spec_def stale_row_def place_def age_spec_def ns_per_day_def
        dealCount_spec_def)

text \<open>
  Claim C3.  By the stated rules a record assigned more than 270 days ago with a
  deal count of 0 is Assigned-Stale-NoDeals (Red), and the deal count defaults to 0.
  For a record assigned 300 days ago whose \<^verbatim>\<open>Deals\<close> cell is blank the code writes
  Black: \<^verbatim>\<open>row.get("Deals", 0)\<close> supplies the default only when the column is
  missing, and \<^verbatim>\<open>NaN == 0\<close> is false.
\<close>

theorem blank_deals_cell_not_stale:
  "assign_flags (300 * ns_per_day) [stale_row] = [stale_row\<lparr>Flag := Some ''Black''\<rparr>] \<and>
   colour (classify_spec (300 * ns_per_day) stale_row) = ''Red''"
  by (simp add: assign_flags_def flag_of_stale_row classify_spec_stale_row)

text \<open>
  Claim C8.  Classifying an already classified table again, at the same instant,
  gives the same table: the flag never depends on an earlier flag.
\<close>

theorem assign_flags_idempotent:
  "assign_flags today (assign_flags today data) = assign_flags today data"
  by (simp add: assign_flags_def flag_of_Flag_update)

section \<open>Properties of the distance\<close>

lemma sin_pi4_sq: "(sin (pi / 4))\<^sup>2 = 1 / 2"
  by (simp add: sin_45 power2_eq_square)

lemma atan2_same: "0 < x \<Longrightarrow> atan2 x x = pi / 4"
  by (simp add: atan2_def arctan_one)

lemma sin_half_sq: "(sin (t / 2))\<^sup>2 = (1 - cos t) / 2" for t :: real
  using cos_double_sin [of "t / 2"] by simp

lemma convex_bound:
  fixes x y s :: real
  assumes x: "- 1 \<le> x" "x \<le> 1" and y: "- 1 \<le> y" "y \<le> 1" and s: "0 \<le> s" "s \<le> 1"
  shows "0 \<le> (1 - x) / 2 + (x + y) / 2 * s"
    and "(1 - x) / 2 + (x + y) / 2 * s \<le> 1"
proof -
  have p1: "0 \<le> (1 - x) * (1 - s)" using x s by (intro mult_nonneg_nonneg) simp_all
  have p2: "0 \<le> (1 + y) * s" using y s by (intro mult_nonneg_nonneg) simp_all
  have p3: "0 \<le> (1 + x) * (1 - s)" using x s by (intro mult_nonneg_nonneg) simp_all
  have p4: "0 \<le> (1 - y) * s" using y s by (intro mult_nonneg_nonneg) simp_all
  have e1: "(1 - x) / 2 + (x + y) / 2 * s = ((1 - x) * (1 - s) + (1 + y) * s) / 2"
    by (simp add: field_simps)
  have e2: "1 - ((1 - x) / 2 + (x + y) / 2 * s) = ((1 + x) * (1 - s) + (1 - y) * s) / 2"
    by (simp add: field_simps)
  show "0 \<le> (1 - x) / 2 + (x + y) / 2 * s"
    unfolding e1 using p1 p2 by simp
  have "0 \<le> 1 - ((1 - x) / 2 + (x + y) / 2 * s)"
    unfolding e2 using p3 p4 by simp
  then show "(1 - x) / 2 + (x + y) / 2 * s \<le> 1" by simp
qed

lemma a_range:
  fixes p q s :: real
  assumes "0 \<le> s" "s \<le> 1"
  shows "0 \<le> (sin ((q - p) / 2))\<^sup>2 + cos p * cos q * s"
    and "(sin ((q - p) / 2))\<^sup>2 + cos p * cos q * s \<le> 1"
proof -
  have h: "(sin ((q - p) / 2))\<^sup>2 = (1 - cos (q - p)) / 2"
    by (rule sin_half_sq)
  have cc: "cos p * cos q = (cos (q - p) + cos (q + p)) / 2"
    by (simp add: cos_diff cos_add)
  show "0 \<le> (sin ((q - p) / 2))\<^sup>2 + cos p * cos q * s"
    unfolding h cc by (rule convex_bound) (simp_all add: assms)
  show "(sin ((q - p) / 2))\<^sup>2 + cos p * cos q * s \<le> 1"
    unfolding h cc by (rule convex_bound) (simp_all add: assms)
qed

text \<open>
  In exact arithmetic the two arguments of \<^verbatim>\<open>math.sqrt\<close> in \<^verbatim>\<open>haversine\<close> are
  never negative, whatever the three coordinates that are read.
\<close>

lemma haversine_radicands:
  fixes la1 lo1 la2 :: real
  defines "a \<equiv> (sin (radians (la2 - la1) / 2))\<^sup>2 +
                cos (radians la1) * cos (radians la2) * (sin (radians (la2 - lo1) / 2))\<^sup>2"
  shows "0 \<le> a \<and> 0 \<le> 1 - a"
proof -
  have r: "radians (la2 - la1) = radians la2 - radians la1"
    by (simp add: radians_def diff_divide_distrib left_diff_distrib)
  have s0: "0 \<le> (sin (radians (la2 - lo1) / 2))\<^sup>2" by simp
  have s1: "(sin (radians (la2 - lo1) / 2))\<^sup>2 \<le> 1" by (simp add: sin_squared_eq)
  have "0 \<le> a" unfolding a_def r by (rule a_range(1)[OF s0 s1])
  moreover have "a \<le> 1" unfolding a_def r by (rule a_range(2)[OF s0 s1])
  ultimately show ?thesis by simp
qed

lemma haversine_ignores_lon2: "haversine lat1 lon1 lat2 lon2 = haversine lat1 lon1 lat2 lon2'"
  by (simp add: haversine_def)

lemma haversine_quarter_turn: "haversine (Some 0) (Some 0) (Some 0) (Some 90) = Some 0"
  by (simp add: haversine_def radians_def atan2_def)

lemma haversine_spec_quarter_turn: "haversine_spec 0 0 0 90 = 3958.8 * pi / 2"
proof -
  have "radians (90 - 0) / 2 = pi / 4" by (simp add: radians_def)
  then show ?thesis
    by (simp add: haversine_spec_def Let_def sin_pi4_sq atan2_same radians_def)
qed

lemma haversine_same_point:
  "haversine (Some 0) (Some 90) (Some 0) (Some 90) = Some (3958.8 * pi / 2)"
proof -
  have "radians (0 - 90) / 2 = - (pi / 4)" by (simp add: radians_def)
  then show ?thesis
    by (simp add: haversine_def Let_def sin_pi4_sq atan2_same radians_def)
qed

lemma haversine_spec_same_point: "haversine_spec lat lon lat lon = 0"
  by (simp add: haversine_spec_def radians_def atan2_def)

text \<open>
  Claim C1.  The distance that the proximity filter uses should be the haversine
  distance with the longitude delta \<open>lon2 - lon1\<close>.  The code computes the delta as
  \<open>lat2 - lon1\<close>: for the points (0, 0) and (0, 90), a quarter of the equator apart,
  \<^verbatim>\<open>haversine\<close> returns 0, while the stated formula gives \<open>3958.8 * pi / 2\<close> miles.
\<close>

theorem haversine_longitude_slip:
  "haversine (Some 0) (Some 0) (Some 0) (Some 90) = Some 0 \<and>
   haversine_spec 0 0 0 90 = 3958.8 * pi / 2"
  by (simp only: haversine_quarter_turn haversine_spec_quarter_turn)

section \<open>Properties of the proximity filter\<close>

lemma too_close_iff:
  "too_close u as \<longleftrightarrow>
     (\<exists>a \<in> set as. float_le (haversine (Latitude u) (Longitude u) (Latitude a) (Longitude a)) 7)"
  by (induction as) (simp_all add: Let_def)

lemma available_loop_filter:
  "available_loop us as = filter (\<lambda>u. \<not> too_close u as) us"
  by (induction us) simp_all

text \<open>
  Relative to the value that \<^verbatim>\<open>haversine\<close> returns, the filter keeps exactly the
  unassigned rows for which no assigned row gives a value at most 7.
\<close>

lemma find_available_cities_set:
  "set (find_available_cities data) =
     {u \<in> set data. Rep_Assigned u = None \<and>
        (\<forall>a \<in> set data. Rep_Assigned a \<noteq> None \<longrightarrow>
           \<not> float_le (haversine (Latitude u) (Longitude u) (Latitude a) (Longitude a)) 7)}"
  by (auto simp: find_available_cities_def available_loop_filter too_close_iff)

lemma missing_coordinate_always_available:
  assumes "u \<in> set data" "Rep_Assigned u = None" "Latitude u = None \<or> Longitude u = None"
  shows "u \<in> set (find_available_cities data)"
  using assms
  by (auto simp: find_available_cities_set haversine_def float_le_def split: option.splits)

lemma same_point_available:
  "find_available_cities [place (Some 0) (Some 90) None, place (Some 0) (Some 90) (Some ''X'')]
     = [place (Some 0) (Some 90) None]"
proof -
  have "(7::real) < 3958.8 * pi / 2" using pi_ge_two by simp
  then show ?thesis
    by (simp add: find_available_cities_def place_def haversine_same_point float_le_def)
qed

text \<open>
  Claim C2.  An unassigned record should be in the result exactly when its distance
  to every assigned record exceeds 7 miles.  With an unassigned and an assigned record
  at the same coordinates (0, 90), whose great-circle distance is 0, the code returns
  the unassigned record as available: \<^verbatim>\<open>haversine\<close> gives about 6218 miles for the
  pair.
\<close>

theorem find_available_cities_same_point:
  "find_available_cities [place (Some 0) (Some 90) None, place (Some 0) (Some 90) (Some ''X'')]
     = [place (Some 0) (Some 90) None] \<and>
   haversine_spec 0 90 0 90 = 0"
  by (simp only: same_point_available haversine_spec_same_point)

text \<open>
  Claim C4.  Records with a missing coordinate should be in neither partition and
  never in the result.  The code keeps them: an unassigned record without latitude,
  next to an assigned record, is returned as available, since its distance is
  \<^verbatim>\<open>NaN\<close> and \<^verbatim>\<open>NaN <= 7\<close> is false.
\<close>

theorem find_available_cities_missing_latitude:
  "find_available_cities [place None (Some 0) None, place (Some 0) (Some 0) (Some ''X'')]
     = [place None (Some 0) None]"
  by (simp add: find_available_cities_def place_def haversine_def float_le_def)

section \<open>Properties of the query filter\<close>

lemma isin_Nil: "isin cell [] = False"
  by (simp add: isin_def split: option.splits)

lemma literal_no_leading_repeat: "literal_text q \<Longrightarrow> \<not> leading_repeat q"
  by (cases q) (auto simp: leading_repeat_def literal_text_def regex_special_def)

lemma re_compile_literal: "literal_text q \<Longrightarrow> re_compile re q = Ok (search_literal q)"
  by (simp add: re_compile_def literal_no_leading_repeat)

lemma re_compile_leading_repeat: "leading_repeat q \<Longrightarrow> re_compile re q = Raise ReError"
  by (simp add: re_compile_def)

lemma select_eq_subset: "set (select_eq column selected rows) \<subseteq> set rows"
  by (auto simp: select_eq_def split: option.splits)

lemma select_eq_Nil: "select_eq column selected [] = []"
  by (simp add: select_eq_def split: option.splits)

lemma search_rows_subset: "search_rows re q rows = Ok res \<Longrightarrow> set res \<subseteq> set rows"
  by (auto simp: search_rows_def split: result.splits)

lemma filter_data_Ok_subset:
  assumes "filter_data re data states q rep flag m = Ok res"
  shows "set res \<subseteq> {r \<in> set data. isin (State r) states \<and> ge_cell (Population r) m}"
proof -
  define base where "base = filter (\<lambda>r. isin (State r) states \<and> ge_cell (Population r) m) data"
  define outcome where "outcome = (if q \<noteq> [] then search_rows re q base else Ok base)"
  have "filter_data re data states q rep flag m =
          (case outcome of
             Ok fd \<Rightarrow> Ok (select_eq Flag flag (select_eq Rep_Assigned rep fd))
           | Raise e \<Rightarrow> Raise e)"
    by (simp add: filter_data_def Let_def base_def outcome_def)
  with assms obtain mid where "outcome = Ok mid"
    and res: "res = select_eq Flag flag (select_eq Rep_Assigned rep mid)"
    by (cases outcome) auto
  then have mid: "(if q \<noteq> [] then search_rows re q base else Ok base) = Ok mid"
    by (simp add: outcome_def)
  have "set mid \<subseteq> set base"
  proof (cases "q = []")
    case True
    with mid show ?thesis by simp
  next
    case False
    with mid have "search_rows re q base = Ok mid" by simp
    then show ?thesis by (rule search_rows_subset)
  qed
  moreover have "set res \<subseteq> set mid"
  proof -
    have "set (select_eq Flag flag (select_eq Rep_Assigned rep mid))
            \<subseteq> set (select_eq Rep_Assigned rep mid)"
      by (rule select_eq_subset)
    also have "\<dots> \<subseteq> set mid" by (rule select_eq_subset)
    finally show ?thesis by (simp add: res)
  qed
  ultimately show ?thesis by (auto simp: base_def)
qed

text \<open>
  The call returns a table exactly when the search text is empty or compiles;
  otherwise it raises.
\<close>

lemma filter_data_returns_iff:
  "(\<exists>res. filter_data re data states q rep flag m = Ok res) \<longleftrightarrow> q = [] \<or> compiles re q"
  by (cases "re_compile re q")
     (auto simp: filter_data_def search_rows_def compiles_def Let_def)

text \<open>
  Claim C5, as amended.  Whatever the search text and the other arguments, the
  filter keeps a record only when its population is present and at least
  \<open>min_population\<close>; a record without population fails the test for every floor.
\<close>

theorem filter_data_population_floor:
  assumes "filter_data re data states search_query selected_rep selected_flag min_population
             = Ok res"
    and "r \<in> set res"
  shows "\<exists>p. Population r = Some p \<and> min_population \<le> p"
  using filter_data_Ok_subset [OF assms(1)] assms(2)
  by (auto simp: ge_cell_def split: option.splits)

lemma regex_search_example:
  "filter_data accepting_re [place None None None] [''MA''] ''St. Paul'' None None 10000
     = Ok [place None None None]"
  by (simp add: filter_data_def search_rows_def re_compile_def leading_repeat_def
        literal_text_def regex_special_def accepting_re_def place_def isin_def ge_cell_def
        select_eq_def str_contains_def)

theorem filter_data_population_floor_witness:
  "filter_data accepting_re [place None None None] [''MA''] ''St. Paul'' None None 10000
     = Ok [place None None None] \<and>
   (\<exists>p. Population (place None None None) = Some p \<and> 10000 \<le> p)"
proof -
  have m: "place None None None \<in> set [place None None None]" by simp
  from filter_data_population_floor [OF regex_search_example m] regex_search_example
  show ?thesis by blast
qed

text \<open>
  Claim C5 as stated says that a record without population still passes when the
  floor is 0.  It does not: \<^verbatim>\<open>NaN >= 0\<close> is false.  The search text is empty here,
  so the library is not consulted.
\<close>

theorem absent_population_fails_floor_zero:
  "filter_data refusing_re [(place None None None)\<lparr>Population := None\<rparr>] [''MA''] []
     None None 0 = Ok []"
  by (simp add: filter_data_def place_def isin_def ge_cell_def select_eq_def)

lemma str_contains_iff:
  "str_contains (search_literal q) cell \<longleftrightarrow>
     (\<exists>s ps ss. cell = Some s \<and> map lower s = ps @ map lower q @ ss)"
  by (cases cell) (simp_all add: str_contains_def search_literal_def sublist_def)

text \<open>
  Claim C6, as amended.  For a non-empty search text without regular-expression
  special characters, a record that passes the region and population tests is kept
  when its city, its state or its representative contains the text, without regard
  to the case of ASCII letters.
\<close>

theorem search_keeps_literal:
  assumes q: "search_query \<noteq> []" "literal_text search_query"
    and r: "r \<in> set data" "isin (State r) states" "ge_cell (Population r) min_population"
    and hit: "(\<exists>s ps ss. City r = Some s \<and> map lower s = ps @ map lower search_query @ ss) \<or>
              (\<exists>s ps ss. State r = Some s \<and> map lower s = ps @ map lower search_query @ ss) \<or>
              (\<exists>s ps ss. Rep_Assigned r = Some s \<and> map lower s = ps @ map lower search_query @ ss)"
  shows "\<exists>res. filter_data re data states search_query None None min_population = Ok res \<and>
               r \<in> set res"
proof -
  have c: "re_compile re search_query = Ok (search_literal search_query)"
    using q(2) by (rule re_compile_literal)
  have "str_contains (search_literal search_query) (City r) \<or>
        str_contains (search_literal search_query) (State r) \<or>
        str_contains (search_literal search_query) (astype_str (Rep_Assigned r))"
  proof -
    have "Rep_Assigned r = Some s \<Longrightarrow> astype_str (Rep_Assigned r) = Some s" for s
      by (simp add: astype_str_def)
    with hit show ?thesis unfolding str_contains_iff by blast
  qed
  then show ?thesis
    using q(1) r c by (simp add: filter_data_def search_rows_def select_eq_def Let_def)
qed

theorem search_keeps_literal_witness:
  "literal_text ''OW'' \<and>
   (\<exists>res. filter_data refusing_re [place None None None] [''MA''] ''OW'' None None 0 = Ok res \<and>
          place None None None \<in> set res)"
proof -
  have l: "literal_text ''OW''" by (simp add: literal_text_def regex_special_def)
  have hit: "(\<exists>s ps ss. City (place None None None) = Some s \<and> map lower s = ps @ map lower ''OW'' @ ss) \<or>
             (\<exists>s ps ss. State (place None None None) = Some s \<and> map lower s = ps @ map lower ''OW'' @ ss) \<or>
             (\<exists>s ps ss. Rep_Assigned (place None None None) = Some s \<and> map lower s = ps @ map lower ''OW'' @ ss)"
    by (rule disjI1, rule exI [of _ "''Town''"], rule exI [of _ "''t''"], rule exI [of _ "''n''"])
       (simp add: place_def lower_def)
  have "\<exists>res. filter_data refusing_re [place None None None] [''MA''] ''OW'' None None 0 = Ok res \<and>
          place None None None \<in> set res"
    by (rule search_keeps_literal [OF _ l _ _ _ hit]) (simp_all add: isin_def ge_cell_def place_def)
  with l show ?thesis by simp
qed

lemma nan_not_in_Town: "\<not> search_literal ''nan'' ''Town''"
  by code_simp

lemma nan_not_in_MA: "\<not> search_literal ''nan'' ''MA''"
  by code_simp

lemma nan_in_nan: "search_literal ''nan'' ''nan''"
  by (simp add: search_literal_def)

text \<open>Whatever the library does elsewhere, these two calls do not depend on it.\<close>

lemma nan_search_keeps:
  "filter_data re [place None None None] [''MA''] ''nan'' None None 0 = Ok [place None None None]"
proof -
  have "literal_text ''nan''" by (simp add: literal_text_def regex_special_def)
  then have "re_compile re ''nan'' = Ok (search_literal ''nan'')" by (rule re_compile_literal)
  then show ?thesis
    by (simp add: filter_data_def search_rows_def place_def isin_def ge_cell_def select_eq_def
          str_contains_def astype_str_def nan_in_nan)
qed

lemma star_search_raises:
  "filter_data re [(place None None None)\<lparr>City := Some ''A*''\<rparr>] [''MA''] ''*'' None None 0
     = Raise ReError"
  by (simp add: filter_data_def search_rows_def re_compile_def leading_repeat_def)

text \<open>
  Claim C6 as stated fails in two ways.  A record without representative is kept by
  the search text \<^verbatim>\<open>nan\<close>, which occurs neither in its city nor in its state: the
  representative column is converted with \<^verbatim>\<open>astype(str)\<close> before \<^verbatim>\<open>na=False\<close> can
  apply.  And the search text \<^verbatim>\<open>*\<close> does not keep a record whose city contains it:
  it is read as a regular expression and the call raises.
\<close>

theorem search_counterexample:
  "Rep_Assigned (place None None None) = None \<and>
   \<not> search_literal ''nan'' ''Town'' \<and> \<not> search_literal ''nan'' ''MA'' \<and>
   filter_data refusing_re [place None None None] [''MA''] ''nan'' None None 0
     = Ok [place None None None] \<and>
   filter_data refusing_re [(place None None None)\<lparr>City := Some ''A*''\<rparr>] [''MA''] ''*''
     None None 0 = Raise ReError"
  using nan_not_in_Town nan_not_in_MA
    nan_search_keeps [of refusing_re] star_search_raises [of refusing_re]
  by (simp add: place_def)

text \<open>
  Claim C10, as amended.  With no region selected the filter returns the empty table
  whenever the search text is empty or compiles as a regular expression, whatever
  the other arguments; when the search text does not compile the call raises, so no
  call ever returns a record.
\<close>

theorem filter_data_no_states:
  "filter_data re data [] search_query selected_rep selected_flag min_population =
     (if search_query = [] \<or> compiles re search_query then Ok [] else Raise ReError)"
proof (cases "re_compile re search_query")
  case (Ok found)
  then show ?thesis
    by (simp add: filter_data_def search_rows_def compiles_def isin_Nil select_eq_Nil)
next
  case (Raise e)
  moreover have "e = ReError" by (cases e) simp
  ultimately show ?thesis
    by (simp add: filter_data_def search_rows_def compiles_def isin_Nil select_eq_Nil)
qed

lemma compiles_bos: "compiles re ''bos''"
  by (simp add: compiles_def re_compile_def leading_repeat_def literal_text_def regex_special_def)

lemma compiles_St_Paul: "compiles accepting_re ''St. Paul''"
  by (simp add: compiles_def re_compile_def leading_repeat_def literal_text_def
        regex_special_def accepting_re_def)

theorem filter_data_no_states_witness:
  "filter_data refusing_re example_table [] ''bos'' (Some ''Bob'') (Some ''Blue'') 10000 = Ok [] \<and>
   filter_data accepting_re example_table [] ''St. Paul'' None None 0 = Ok [] \<and>
   filter_data refusing_re example_table [] [] None None 0 = Ok []"
  using filter_data_no_states [of refusing_re example_table "''bos''" "Some ''Bob''" "Some ''Blue''" 10000]
    filter_data_no_states [of accepting_re example_table "''St. Paul''" None None 0]
    filter_data_no_states [of refusing_re example_table "[]" None None 0]
    compiles_bos [of refusing_re] compiles_St_Paul
  by simp

text \<open>
  Claim C10 as stated covers every search text.  With the text \<^verbatim>\<open>*\<close> the call
  raises \<^verbatim>\<open>re.error\<close> instead of returning the empty table, also when no region is
  selected: the pattern is compiled before any row is looked at.
\<close>

theorem filter_data_no_states_counterexample:
  "filter_data refusing_re example_table [] ''*'' None None 0 = Raise ReError"
  by (simp add: filter_data_def search_rows_def re_compile_def leading_repeat_def isin_Nil)

section \<open>Properties of the summary\<close>

lemma set_counted:
  "set (counted data) =
     {(rep, flag). \<exists>r \<in> set data. Rep_Assigned r = Some rep \<and> Flag r = Some flag}"
  by (induction data) (auto split: option.splits)

lemma count_counted: "count_list (counted data) (rep, flag) = records_of data rep flag"
  by (induction data) (auto simp: records_of_def split: option.splits)

lemma counted_filter_assigned: "counted (filter (\<lambda>r. Rep_Assigned r \<noteq> None) data) = counted data"
  by (induction data) (auto split: option.splits)

lemma map_of_tabulate:
  "map_of (map (\<lambda>k. (k, f k)) ks) k = (if k \<in> set ks then Some (f k) else None)"
  by (induction ks) auto

lemma reindex_unstack_cell:
  "(case map_of (map (\<lambda>flag. (flag, count_list pairs (rep, flag)))
                     (sort (remdups (map snd pairs)))) c of
      None \<Rightarrow> 0 | Some n \<Rightarrow> n) = count_list pairs (rep, c)"
proof (cases "c \<in> set (map snd pairs)")
  case True
  then show ?thesis by (simp add: map_of_tabulate)
next
  case False
  then have "(rep, c) \<notin> set pairs" by force
  then have "count_list pairs (rep, c) = 0" by (simp add: count_list_0_iff)
  with False show ?thesis by (simp add: map_of_tabulate)
qed

lemma summarize_by_rep_eq:
  "summarize_by_rep data =
     map (\<lambda>rep. (rep, summary_row_spec data rep)) (sort (remdups (map fst (counted data))))"
proof -
  have cell: "(case map_of (map (\<lambda>flag. (flag, records_of data rep flag))
                     (sort (remdups (map snd (counted data))))) c of
      None \<Rightarrow> 0 | Some n \<Rightarrow> n) = records_of data rep c" for rep c
    using reindex_unstack_cell [of "counted data" rep c] by (simp add: count_counted)
  show ?thesis
    by (simp add: summarize_by_rep_def unstack_def Let_def reindex_def with_total_def
          count_counted cell summary_row_spec_def o_def)
qed

lemma summarize_by_rep_keys:
  "set (map fst (summarize_by_rep data)) =
     {rep. \<exists>r \<in> set data. Rep_Assigned r = Some rep \<and> Flag r \<noteq> None}"
proof -
  have "set (map fst (summarize_by_rep data)) = set (map fst (counted data))"
    by (simp add: summarize_by_rep_eq image_image o_def)
  also have "\<dots> = {rep. \<exists>r \<in> set data. Rep_Assigned r = Some rep \<and> Flag r \<noteq> None}"
    by (force simp: set_counted)
  finally show ?thesis .
qed

lemma summarize_by_rep_keys_sorted:
  "sort (remdups (map fst (counted data))) =
     sorted_list_of_set {rep. \<exists>r \<in> set data. Rep_Assigned r = Some rep \<and> Flag r \<noteq> None}"
proof -
  have "set (map fst (counted data)) =
          {rep. \<exists>r \<in> set data. Rep_Assigned r = Some rep \<and> Flag r \<noteq> None}"
    by (force simp: set_counted)
  then have "sorted_list_of_set (set (map fst (counted data))) =
          sorted_list_of_set {rep. \<exists>r \<in> set data. Rep_Assigned r = Some rep \<and> Flag r \<noteq> None}"
    by (rule arg_cong)
  then show ?thesis by (simp only: sorted_list_of_set_sort_remdups)
qed

lemma assign_flags_flagged_reps:
  "{rep. \<exists>r \<in> set (filter P (assign_flags today data)).
           Rep_Assigned r = Some rep \<and> Flag r \<noteq> None} =
   {rep. \<exists>r \<in> set (filter P (assign_flags today data)). Rep_Assigned r = Some rep}"
  by (auto simp: assign_flags_def)

text \<open>
  Claim C7.  The summary has exactly one row for every representative that a record
  with a flag carries, in sorted order (after classification every record has a
  flag, so these are all the representatives); records without representative
  change nothing; each row has the four category columns, each with the number of
  that representative's records in the category (0 when there are none), and a
  Total that is the sum of these four.
\<close>

theorem summarize_by_rep_rows:
  "summarize_by_rep data =
     map (\<lambda>rep. (rep,
            [(''Blue'', records_of data rep ''Blue''),
             (''Orange'', records_of data rep ''Orange''),
             (''Red'', records_of data rep ''Red''),
             (''Black'', records_of data rep ''Black''),
             (''Total'', records_of data rep ''Blue'' + records_of data rep ''Orange'' +
                         records_of data rep ''Red'' + records_of data rep ''Black'')]))
       (sorted_list_of_set
          {rep. \<exists>r \<in> set data. Rep_Assigned r = Some rep \<and> Flag r \<noteq> None}) \<and>
   summarize_by_rep (filter (\<lambda>r. Rep_Assigned r \<noteq> None) data) = summarize_by_rep data \<and>
   map fst (summarize_by_rep (assign_flags today data)) =
     sorted_list_of_set {rep. \<exists>r \<in> set data. Rep_Assigned r = Some rep}"
proof (intro conjI)
  show "summarize_by_rep data =
     map (\<lambda>rep. (rep,
            [(''Blue'', records_of data rep ''Blue''),
             (''Orange'', records_of data rep ''Orange''),
             (''Red'', records_of data rep ''Red''),
             (''Black'', records_of data rep ''Black''),
             (''Total'', records_of data rep ''Blue'' + records_of data rep ''Orange'' +
                         records_of data rep ''Red'' + records_of data rep ''Black'')]))
       (sorted_list_of_set
          {rep. \<exists>r \<in> set data. Rep_Assigned r = Some rep \<and> Flag r \<noteq> None})"
    by (simp only: summarize_by_rep_eq summarize_by_rep_keys_sorted summary_row_spec_def)
  show "summarize_by_rep (filter (\<lambda>r. Rep_Assigned r \<noteq> None) data) = summarize_by_rep data"
    by (simp only: summarize_by_rep_def counted_filter_assigned)
  have "map fst (summarize_by_rep (assign_flags today data)) =
          sort (remdups (map fst (counted (assign_flags today data))))"
    by (simp add: summarize_by_rep_eq o_def)
  also have "\<dots> = sorted_list_of_set
      {rep. \<exists>r \<in> set (assign_flags today data). Rep_Assigned r = Some rep \<and> Flag r \<noteq> None}"
    by (rule summarize_by_rep_keys_sorted)
  also have "{rep. \<exists>r \<in> set (assign_flags today data). Rep_Assigned r = Some rep \<and> Flag r \<noteq> None}
      = {rep. \<exists>r \<in> set data. Rep_Assigned r = Some rep}"
    by (auto simp: assign_flags_def)
  finally show "map fst (summarize_by_rep (assign_flags today data)) =
     sorted_list_of_set {rep. \<exists>r \<in> set data. Rep_Assigned r = Some rep}" .
qed

lemma summarize_flagged_table:
  "summarize_by_rep flagged_table =
     [(''Al'', [(''Blue'', 0), (''Orange'', 0), (''Red'', 1), (''Black'', 0), (''Total'', 1)]),
      (''Bob'', [(''Blue'', 2), (''Orange'', 0), (''Red'', 0), (''Black'', 0), (''Total'', 2)])]"
  by code_simp

theorem summarize_by_rep_rows_witness:
  "map (\<lambda>rep. (rep,
            [(''Blue'', records_of flagged_table rep ''Blue''),
             (''Orange'', records_of flagged_table rep ''Orange''),
             (''Red'', records_of flagged_table rep ''Red''),
             (''Black'', records_of flagged_table rep ''Black''),
             (''Total'', records_of flagged_table rep ''Blue'' +
                         records_of flagged_table rep ''Orange'' +
                         records_of flagged_table rep ''Red'' +
                         records_of flagged_table rep ''Black'')]))
       (sorted_list_of_set
          {rep. \<exists>r \<in> set flagged_table. Rep_Assigned r = Some rep \<and> Flag r \<noteq> None}) =
     [(''Al'', [(''Blue'', 0), (''Orange'', 0), (''Red'', 1), (''Black'', 0), (''Total'', 1)]),
      (''Bob'', [(''Blue'', 2), (''Orange'', 0), (''Red'', 0), (''Black'', 0), (''Total'', 2)])]"
proof -
  note t = summarize_by_rep_rows [of flagged_table 0, THEN conjunct1]
  from t [symmetric] summarize_flagged_table show ?thesis by (rule trans)
qed

lemma flag_of_assigned:
  "Rep_Assigned r \<noteq> None \<Longrightarrow> flag_of today r \<in> {''Blue'', ''Orange'', ''Red'', ''Black''}"
  by (auto simp: flag_of_def Let_def split: option.splits)

lemma total_counts_all:
  assumes "\<forall>r \<in> set xs. Rep_Assigned r = Some rep \<longrightarrow>
             Flag r \<in> {Some ''Blue'', Some ''Orange'', Some ''Red'', Some ''Black''}"
  shows "records_of xs rep ''Blue'' + records_of xs rep ''Orange'' +
           records_of xs rep ''Red'' + records_of xs rep ''Black''
         = length (filter (\<lambda>r. Rep_Assigned r = Some rep) xs)"
  using assms by (induction xs) (auto simp: records_of_def)

lemma assign_flags_assigned_flag:
  assumes "r \<in> set (assign_flags today data)" "Rep_Assigned r = Some rep"
  shows "Flag r \<in> {Some ''Blue'', Some ''Orange'', Some ''Red'', Some ''Black''}"
proof -
  from assms(1) obtain r0 where r0: "r = r0\<lparr>Flag := Some (flag_of today r0)\<rparr>"
    by (auto simp: assign_flags_def)
  with assms(2) have "Rep_Assigned r0 \<noteq> None" by simp
  then have "flag_of today r0 \<in> {''Blue'', ''Orange'', ''Red'', ''Black''}"
    by (rule flag_of_assigned)
  with r0 show ?thesis by auto
qed

text \<open>
  Claim C9.  A record with a representative gets one of the four assigned flags,
  never Purple; hence, in the summary of classified records (here any selection
  \<open>P\<close> of them, as the caller selects by state), every representative of a record
  has a row, and the Total of that row is the number of the representative's
  records.
\<close>

theorem assigned_never_available:
  "(Rep_Assigned r \<noteq> None \<longrightarrow>
      flag_of today r \<in> {''Blue'', ''Orange'', ''Red'', ''Black''} \<and> flag_of today r \<noteq> ''Purple'') \<and>
   map (\<lambda>(rep, cols). (rep, map_of cols ''Total''))
       (summarize_by_rep (filter P (assign_flags today data))) =
     map (\<lambda>rep. (rep, Some (length (filter (\<lambda>r. Rep_Assigned r = Some rep)
                                      (filter P (assign_flags today data))))))
       (sorted_list_of_set
          {rep. \<exists>r \<in> set (filter P (assign_flags today data)). Rep_Assigned r = Some rep})"
proof (intro conjI impI)
  assume "Rep_Assigned r \<noteq> None"
  then show "flag_of today r \<in> {''Blue'', ''Orange'', ''Red'', ''Black''}"
    by (rule flag_of_assigned)
  then show "flag_of today r \<noteq> ''Purple''" by auto
next
  let ?xs = "filter P (assign_flags today data)"
  have total: "map_of (summary_row_spec ?xs rep) ''Total'' =
                 Some (length (filter (\<lambda>r. Rep_Assigned r = Some rep) ?xs))" for rep
  proof -
    have "\<forall>r \<in> set ?xs. Rep_Assigned r = Some rep \<longrightarrow>
            Flag r \<in> {Some ''Blue'', Some ''Orange'', Some ''Red'', Some ''Black''}"
      using assign_flags_assigned_flag by auto
    then have "records_of ?xs rep ''Blue'' + records_of ?xs rep ''Orange'' +
                 records_of ?xs rep ''Red'' + records_of ?xs rep ''Black''
               = length (filter (\<lambda>r. Rep_Assigned r = Some rep) ?xs)"
      by (rule total_counts_all)
    then show ?thesis by (simp add: summary_row_spec_def)
  qed
  have "map (\<lambda>(rep, cols). (rep, map_of cols ''Total'')) (summarize_by_rep ?xs) =
          map (\<lambda>rep. (rep, Some (length (filter (\<lambda>r. Rep_Assigned r = Some rep) ?xs))))
            (sort (remdups (map fst (counted ?xs))))"
    by (simp add: summarize_by_rep_eq o_def total)
  also have "sort (remdups (map fst (counted ?xs))) =
      sorted_list_of_set {rep. \<exists>r \<in> set ?xs. Rep_Assigned r = Some rep}"
    by (simp only: summarize_by_rep_keys_sorted assign_flags_flagged_reps)
  finally show "map (\<lambda>(rep, cols). (rep, map_of cols ''Total'')) (summarize_by_rep ?xs) =
     map (\<lambda>rep. (rep, Some (length (filter (\<lambda>r. Rep_Assigned r = Some rep) ?xs))))
       (sorted_list_of_set {rep. \<exists>r \<in> set ?xs. Rep_Assigned r = Some rep})" .
qed

lemma totals_example_table:
  "map (\<lambda>(rep, cols). (rep, map_of cols ''Total''))
       (summarize_by_rep (filter (\<lambda>r. State r = Some ''MA'')
          (assign_flags example_today example_table))) =
     [(''Al'', Some 1), (''Bob'', Some 2)]"
  by code_simp

theorem assigned_never_available_witness:
  "Rep_Assigned (place None None (Some ''Al'')) \<noteq> None \<and>
   flag_of example_today (place None None (Some ''Al'')) \<noteq> ''Purple'' \<and>
   map (\<lambda>rep. (rep, Some (length (filter (\<lambda>r. Rep_Assigned r = Some rep)
          (filter (\<lambda>r. State r = Some ''MA'') (assign_flags example_today example_table))))))
       (sorted_list_of_set
          {rep. \<exists>r \<in> set (filter (\<lambda>r. State r = Some ''MA'')
                   (assign_flags example_today example_table)). Rep_Assigned r = Some rep}) =
     [(''Al'', Some 1), (''Bob'', Some 2)]"
proof -
  note t = assigned_never_available
             [of "place None None (Some ''Al'')" example_today
                 "\<lambda>r. State r = Some ''MA''" example_table]
  have a: "Rep_Assigned (place None None (Some ''Al'')) \<noteq> None" by (simp add: place_def)
  from t a have b: "flag_of example_today (place None None (Some ''Al'')) \<noteq> ''Purple''"
    by blast
  from t [THEN conjunct2, symmetric] totals_example_table
  have c: "map (\<lambda>rep. (rep, Some (length (filter (\<lambda>r. Rep_Assigned r = Some rep)
          (filter (\<lambda>r. State r = Some ''MA'') (assign_flags example_today example_table))))))
       (sorted_list_of_set
          {rep. \<exists>r \<in> set (filter (\<lambda>r. State r = Some ''MA'')
                   (assign_flags example_today example_table)). Rep_Assigned r = Some rep}) =
     [(''Al'', Some 1), (''Bob'', Some 2)]"
    by (rule trans)
  from a b c show ?thesis by (intro conjI)
qed

end
